theory Spec2Isabelle
  imports Complex_Main "HOL-Library.Sublist"
begin

section \<open>Values, requests and responses\<close>

text \<open>
  The server (\<^verbatim>\<open>src/main.py\<close>) is written in Python. The values it handles are the ones
  Python's JSON decoder produces: \<^verbatim>\<open>None\<close>, booleans, unbounded integers, floats, strings,
  lists and dictionaries with string keys. A tool's return value is such a value too
  (\<open>JStr\<close> for a \<^verbatim>\<open>str\<close>, \<open>JArr\<close> for a \<^verbatim>\<open>list\<close>).

  A text is a \<open>string\<close>, held in its UTF-8 form, so \<^verbatim>\<open>.encode("utf-8")\<close> leaves it as it is.
  A dictionary is an association list in insertion order, looked up with \<open>map_of\<close>.
  Of a float only whether it is zero matters here (for truthiness).
\<close>

datatype pyfloat = Finite rat | PosInf | NegInf | NaN

datatype json =
    JNull
  | JBool bool
  | JInt int
  | JFloat pyfloat
  | JStr string
  | JArr "json list"
  | JObj "(string \<times> json) list"

text \<open>
  The exceptions that can leave a tool. \<open>RequestException\<close> stands for every failure of
  the HTTP client before a response exists (connection refused, timeout, ...).
\<close>

datatype error =
    RequestException
  | HTTPError int
  | ValueError string
  | AssertionError
  | KeyError string
  | TypeError

datatype http_method = GET | POST

record request =
  meth :: http_method
  url :: string
  data :: "string option"
  headers :: "(string \<times> string) list"

text \<open>
  A response of the \<^verbatim>\<open>requests\<close> library: \<open>resp_text\<close> is \<^verbatim>\<open>response.text\<close>, and \<open>resp_json\<close>
  is what \<^verbatim>\<open>response.json()\<close> gives, \<open>None\<close> when it raises \<^verbatim>\<open>JSONDecodeError\<close>.
\<close>

record response =
  status_code :: int
  resp_text :: string
  resp_json :: "json option"

text \<open>
  The remote side: the response to each request, \<open>None\<close> when the client raises instead.
  Every function that talks to the network returns the list of requests it has issued,
  in order, together with its outcome.
\<close>

type_synonym network = "request \<Rightarrow> response option"

type_synonym 'a outcome = "request list \<times> (error + 'a)"

section \<open>The Python operations the tools use\<close>

text \<open>Truth value of an object, as \<^verbatim>\<open>assert result\<close> tests it.\<close>

fun truthy :: "json \<Rightarrow> bool" where
  "truthy JNull = False"
| "truthy (JBool b) = b"
| "truthy (JInt i) = (i \<noteq> 0)"
| "truthy (JFloat (Finite q)) = (q \<noteq> 0)"
| "truthy (JFloat _) = True"
| "truthy (JStr s) = (s \<noteq> [])"
| "truthy (JArr xs) = (xs \<noteq> [])"
| "truthy (JObj kvs) = (kvs \<noteq> [])"

text \<open>
  \<^verbatim>\<open>k in x\<close> for a string \<open>k\<close>: key membership in a dictionary, element membership in a
  list, substring test in a string, \<^verbatim>\<open>TypeError\<close> on anything else.
\<close>

fun py_in :: "string \<Rightarrow> json \<Rightarrow> error + bool" where
  "py_in k (JObj kvs) = Inr (map_of kvs k \<noteq> None)"
| "py_in k (JArr xs) = Inr (JStr k \<in> set xs)"
| "py_in k (JStr s) = Inr (sublist k s)"
| "py_in k _ = Inl TypeError"

text \<open>
  \<^verbatim>\<open>x[k]\<close> for a string \<open>k\<close>: the value under the key or \<^verbatim>\<open>KeyError\<close> in a dictionary,
  \<^verbatim>\<open>TypeError\<close> on anything else (lists and strings take integer indices only).
\<close>

fun subscript :: "json \<Rightarrow> string \<Rightarrow> error + json" where
  "subscript (JObj kvs) k = (case map_of kvs k of None \<Rightarrow> Inl (KeyError k) | Some v \<Rightarrow> Inr v)"
| "subscript _ k = Inl TypeError"

text \<open>
  The items a \<^verbatim>\<open>for\<close> loop visits: the elements of a list, the keys of a dictionary, the
  characters of a string; \<^verbatim>\<open>TypeError\<close> on anything else.
\<close>

fun py_iter :: "json \<Rightarrow> error + json list" where
  "py_iter (JArr xs) = Inr xs"
| "py_iter (JObj kvs) = Inr (map (\<lambda>kv. JStr (fst kv)) kvs)"
| "py_iter (JStr s) = Inr (map (\<lambda>c. JStr [c]) s)"
| "py_iter _ = Inl TypeError"

definition utf8_encode :: "string \<Rightarrow> string" where
  "utf8_encode s = s"

text \<open>
  \<^verbatim>\<open>Response.raise_for_status()\<close> of the \<^verbatim>\<open>requests\<close> library: it raises \<^verbatim>\<open>HTTPError\<close> for a
  client error (400 to 499) and for a server error (500 to 599), and returns otherwise.
\<close>

definition raise_for_status :: "response \<Rightarrow> error + unit" where
  "raise_for_status r =
     (if 400 \<le> status_code r \<and> status_code r < 600 then Inl (HTTPError (status_code r))
      else Inr ())"

section \<open>The query executor\<close>

definition GEOCONNEX_GRAPH :: string where
  "GEOCONNEX_GRAPH = ''https://graph.geoconnex.us/''"

definition query_headers :: "(string \<times> string) list" where
  "query_headers =
     [(''Accept'', ''application/sparql-results+json''),
      (''Content-Type'', ''application/sparql-query'')]"

text \<open>The request \<^verbatim>\<open>requests.post(GEOCONNEX_GRAPH, data=..., headers=headers)\<close> sends.\<close>

definition post_request :: "string \<Rightarrow> request" where
  "post_request query_text =
     \<lparr>meth = POST, url = GEOCONNEX_GRAPH, data = Some (utf8_encode query_text),
      headers = query_headers\<rparr>"

definition query_geoconnex :: "network \<Rightarrow> string \<Rightarrow> json outcome" where
  "query_geoconnex net query_text =
     ([post_request query_text],
      case net (post_request query_text) of
        None \<Rightarrow> Inl RequestException
      | Some resp \<Rightarrow>
          (case raise_for_status resp of
             Inl e \<Rightarrow> Inl e
           | Inr _ \<Rightarrow>
               (case resp_json resp of
                  Some v \<Rightarrow> Inr v
                | None \<Rightarrow>
                    Inl (ValueError (''Invalid JSON response from Geoconnex: '' @ resp_text resp)))))"

section \<open>The shape fetcher\<close>

definition shacl_url :: string where
  "shacl_url = ''https://raw.githubusercontent.com/internetofwater/nabu/refs/heads/main/shacl_validator/shapes/geoconnex.ttl''"

definition get_request :: "string \<Rightarrow> request" where
  "get_request u = \<lparr>meth = GET, url = u, data = None, headers = []\<rparr>"

definition geoconnex_shacl_shape :: "network \<Rightarrow> json outcome" where
  "geoconnex_shacl_shape net =
     ([get_request shacl_url],
      case net (get_request shacl_url) of
        None \<Rightarrow> Inl RequestException
      | Some resp \<Rightarrow>
          (case raise_for_status resp of
             Inl e \<Rightarrow> Inl e
           | Inr _ \<Rightarrow> Inr (JStr (resp_text resp))))"

section \<open>The exploration tool\<close>

definition explore_geoconnex_db :: "network \<Rightarrow> string \<Rightarrow> json outcome" where
  "explore_geoconnex_db net sparql_query = query_geoconnex net sparql_query"

section \<open>River name to persistent identifier\<close>

text \<open>
  The f-string of the tool, cut at its one placeholder \<^verbatim>\<open>{river_name}\<close>; the doubled braces
  of the source are single braces in the text.
\<close>

definition river_query_prefix :: string where
  \<open>river_query_prefix =
     ''\<newline>'' @
     ''    PREFIX hyf: <https://www.opengis.net/def/schema/hy_features/hyf/>\<newline>'' @
     ''    PREFIX gsp: <http://www.opengis.net/ont/geosparql#>\<newline>'' @
     ''    PREFIX schema: <https://schema.org/>\<newline>'' @
     ''\<newline>'' @
     ''    SELECT DISTINCT ?mainstem ?name ?wkt\<newline>'' @
     ''    WHERE {\<newline>'' @
     ''    BIND("''\<close>

definition river_query_suffix :: string where
  \<open>river_query_suffix =
     ''" AS ?searchString)\<newline>'' @
     ''    \<newline>'' @
     ''    # flowpath allows us to filter by mainstems\<newline>'' @
     ''    ?mainstem a hyf:HY_FlowPath ;\<newline>'' @
     ''                schema:name ?name ;\<newline>'' @
     ''                gsp:hasGeometry/gsp:asWKT ?wkt .\<newline>'' @
     ''\<newline>'' @
     ''    # Case-insensitive substring match\<newline>'' @
     ''    FILTER(CONTAINS(LCASE(STR(?name)), LCASE(STR(?searchString))))\<newline>'' @
     ''    }\<newline>'' @
     ''    ORDER BY ?name\<newline>'' @
     ''    ''\<close>

definition river_query :: "string \<Rightarrow> string" where
  "river_query river_name = river_query_prefix @ river_name @ river_query_suffix"

text \<open>
  Lines 60 to 62: the loop returns in its first round; with nothing to visit, the
  statement after it returns the fixed text.
\<close>

fun first_mainstem :: "json list \<Rightarrow> error + json" where
  "first_mainstem [] = Inr (JStr ''No PID found'')"
| "first_mainstem (res # rest) =
     (case subscript res ''mainstem'' of
        Inl e \<Rightarrow> Inl e
      | Inr m \<Rightarrow> subscript m ''value'')"

text \<open>Lines 58 to 62, on the value \<^verbatim>\<open>query_geoconnex\<close> returned. Assertions are enabled.\<close>

definition pid_of_result :: "json \<Rightarrow> error + json" where
  "pid_of_result result =
     (if \<not> truthy result then Inl AssertionError
      else case py_in ''results'' result of
        Inl e \<Rightarrow> Inl e
      | Inr False \<Rightarrow> Inl AssertionError
      | Inr True \<Rightarrow>
          (case subscript result ''results'' of
             Inl e \<Rightarrow> Inl e
           | Inr rs \<Rightarrow>
               (case subscript rs ''bindings'' of
                  Inl e \<Rightarrow> Inl e
                | Inr bs \<Rightarrow>
                    (case py_iter bs of
                       Inl e \<Rightarrow> Inl e
                     | Inr items \<Rightarrow> first_mainstem items))))"

definition get_geoconnex_pid_from_river_name :: "network \<Rightarrow> string \<Rightarrow> json outcome" where
  "get_geoconnex_pid_from_river_name net river_name =
     (case query_geoconnex net (river_query river_name) of
        (reqs, Inl e) \<Rightarrow> (reqs, Inl e)
      | (reqs, Inr result) \<Rightarrow> (reqs, pid_of_result result))"

section \<open>Persistent identifier to datasets\<close>

text \<open>The f-string \<^verbatim>\<open>query\<close> of the tool, cut at its one placeholder \<^verbatim>\<open>{pid}\<close>.\<close>

definition dataset_query_prefix :: string where
  \<open>dataset_query_prefix =
     ''\<newline>'' @
     ''    PREFIX schema: <https://schema.org/>\<newline>'' @
     ''    PREFIX gsp: <http://www.opengis.net/ont/geosparql#>\<newline>'' @
     ''    PREFIX hyf: <https://www.opengis.net/def/schema/hy_features/hyf/>\<newline>'' @
     ''    \<newline>'' @
     ''    SELECT DISTINCT ?monitoringLocation ?siteName ?datasetDescription ?type ?url\<newline>'' @
     ''                    ?variableMeasured ?variableUnit ?measurementTechnique ?temporalCoverage\<newline>'' @
     ''                    ?distributionName ?distributionURL ?distributionFormat ?wkt\<newline>'' @
     ''    WHERE {\<newline>'' @
     ''        VALUES ?mainstem { <''\<close>

definition dataset_query_suffix :: string where
  \<open>dataset_query_suffix =
     ''> }\<newline>'' @
     ''        \<newline>'' @
     ''        ?monitoringLocation hyf:referencedPosition/hyf:HY_IndirectPosition/hyf:linearElement ?mainstem ;\<newline>'' @
     ''                            schema:subjectOf ?item ;\<newline>'' @
     ''                            hyf:HydroLocationType ?type ;\<newline>'' @
     ''                            gsp:hasGeometry/gsp:asWKT ?wkt .\<newline>'' @
     ''\<newline>'' @
     ''        ?item schema:name ?siteName ;\<newline>'' @
     ''              schema:temporalCoverage ?temporalCoverage ;\<newline>'' @
     ''              schema:url ?url ;\<newline>'' @
     ''              schema:variableMeasured ?variableMeasured .\<newline>'' @
     ''\<newline>'' @
     ''        ?variableMeasured schema:description ?datasetDescription ;\<newline>'' @
     ''                          schema:name ?variableMeasuredName ;\<newline>'' @
     ''                          schema:unitText ?variableUnit ;\<newline>'' @
     ''                          schema:measurementTechnique ?measurementTechnique .\<newline>'' @
     ''\<newline>'' @
     ''        OPTIONAL {\<newline>'' @
     ''            ?item schema:distribution ?distribution .\<newline>'' @
     ''            ?distribution schema:name ?distributionName ;\<newline>'' @
     ''                          schema:contentUrl ?distributionURL ;\<newline>'' @
     ''                          schema:encodingFormat ?distributionFormat .\<newline>'' @
     ''        }\<newline>'' @
     ''\<newline>'' @
     ''        # Filter datasets by the desired variable description\<newline>'' @
     ''        FILTER(REGEX(?datasetDescription, "temperature", "i"))\<newline>'' @
     ''    }\<newline>'' @
     ''    ORDER BY ?siteName\<newline>'' @
     ''    LIMIT 5\<newline>'' @
     ''    ''\<close>

definition dataset_query :: "string \<Rightarrow> string" where
  "dataset_query pid = dataset_query_prefix @ pid @ dataset_query_suffix"

text \<open>Lines 107 to 109, on the value \<^verbatim>\<open>query_geoconnex\<close> returned.\<close>

definition datasets_of_result :: "json \<Rightarrow> error + json" where
  "datasets_of_result result =
     (if \<not> truthy result then Inl AssertionError
      else case py_in ''results'' result of
        Inl e \<Rightarrow> Inl e
      | Inr False \<Rightarrow> Inl AssertionError
      | Inr True \<Rightarrow>
          (case subscript result ''results'' of
             Inl e \<Rightarrow> Inl e
           | Inr rs \<Rightarrow> subscript rs ''bindings''))"

definition get_datasets_for_geoconnex_pid :: "network \<Rightarrow> string \<Rightarrow> json outcome" where
  "get_datasets_for_geoconnex_pid net pid =
     (case query_geoconnex net (dataset_query pid) of
        (reqs, Inl e) \<Rightarrow> (reqs, Inl e)
      | (reqs, Inr result) \<Rightarrow> (reqs, datasets_of_result result))"

section \<open>Example endpoints and results\<close>

text \<open>An endpoint that answers every request with the same response.\<close>

definition always :: "response \<Rightarrow> network" where
  "always resp req = Some resp"

definition ok_response :: "string \<Rightarrow> json \<Rightarrow> response" where
  "ok_response body v = \<lparr>status_code = 200, resp_text = body, resp_json = Some v\<rparr>"

definition mainstem_binding :: "string \<Rightarrow> json" where
  "mainstem_binding pid = JObj [(''mainstem'', JObj [(''type'', JStr ''uri''), (''value'', JStr pid)])]"

definition snake_result :: json where
  "snake_result =
     JObj [(''head'', JObj [(''vars'', JArr [JStr ''mainstem'', JStr ''name'', JStr ''wkt''])]),
           (''results'', JObj [(''bindings'',
              JArr [mainstem_binding ''https://geoconnex.us/ref/mainstems/123'',
                    mainstem_binding ''https://geoconnex.us/ref/mainstems/456''])])]"

definition no_rows_text :: string where
  \<open>no_rows_text = ''{"head": {"vars": []}, "results": {"bindings": []}}''\<close>

definition no_rows_result :: json where
  "no_rows_result =
     JObj [(''head'', JObj [(''vars'', JArr [])]), (''results'', JObj [(''bindings'', JArr [])])]"

definition not_modified :: response where
  "not_modified = \<lparr>status_code = 304, resp_text = [], resp_json = None\<rparr>"

definition multiple_choices :: response where
  "multiple_choices =
     \<lparr>status_code = 300, resp_text = ''<html>choose</html>'', resp_json = None\<rparr>"

definition html_error_page :: response where
  "html_error_page =
     \<lparr>status_code = 200, resp_text = ''<html>error</html>'', resp_json = None\<rparr>"

definition unavailable :: response where
  "unavailable = \<lparr>status_code = 503, resp_text = ''busy'', resp_json = None\<rparr>"

definition six_rows :: "json list" where
  "six_rows = map (\<lambda>n. JObj [(''siteName'', JObj [(''type'', JStr ''literal''), (''value'', JStr n)])])
     [''A'', ''B'', ''C'', ''D'', ''E'', ''F'']"

definition six_rows_result :: json where
  "six_rows_result = JObj [(''results'', JObj [(''bindings'', JArr six_rows)])]"

definition empty_object :: json where
  "empty_object = JObj []"

definition head_only_result :: json where
  "head_only_result = JObj [(''head'', JObj [(''vars'', JArr [])])]"

definition no_bindings_result :: json where
  "no_bindings_result = JObj [(''results'', JObj [])]"

definition no_mainstem_result :: json where
  "no_mainstem_result =
     JObj [(''results'', JObj [(''bindings'', JArr [JObj [(''name'', JObj [(''value'', JStr ''Snake River'')])]])])]"

definition no_value_result :: json where
  "no_value_result =
     JObj [(''results'', JObj [(''bindings'', JArr [JObj [(''mainstem'', JObj [(''type'', JStr ''uri'')])]])])]"

definition empty_dict_bindings_result :: json where
  "empty_dict_bindings_result = JObj [(''results'', JObj [(''bindings'', JObj [])])]"

definition sentinel_row_result :: json where
  "sentinel_row_result =
     JObj [(''results'', JObj [(''bindings'', JArr [mainstem_binding ''No PID found''])])]"

section \<open>Properties\<close>

lemma subscript_Inr_iff:
  "subscript x k = Inr v \<longleftrightarrow> (\<exists>kvs. x = JObj kvs \<and> map_of kvs k = Some v)"
  by (cases x) (auto split: option.splits)

lemma subscript_Inr_truthy: "subscript x k = Inr v \<Longrightarrow> truthy x"
  by (auto simp: subscript_Inr_iff)

lemma subscript_Inr_in: "subscript x k = Inr v \<Longrightarrow> py_in k x = Inr True"
  by (auto simp: subscript_Inr_iff)

lemma subscript_not_assertion: "subscript x k \<noteq> Inl AssertionError"
  by (cases x) (auto split: option.splits)

lemma py_in_not_assertion: "py_in k x \<noteq> Inl AssertionError"
  by (cases x) auto

lemma py_iter_not_assertion: "py_iter x \<noteq> Inl AssertionError"
  by (cases x) auto

lemma first_mainstem_not_assertion: "first_mainstem items \<noteq> Inl AssertionError"
  by (cases items) (auto simp: subscript_not_assertion split: sum.splits)

lemma fst_query_geoconnex: "fst (query_geoconnex net q) = [post_request q]"
  by (simp add: query_geoconnex_def)

lemma snd_pid_tool:
  "snd (get_geoconnex_pid_from_river_name net n) =
     (case snd (query_geoconnex net (river_query n)) of
        Inl e \<Rightarrow> Inl e | Inr r \<Rightarrow> pid_of_result r)"
  by (simp add: get_geoconnex_pid_from_river_name_def split: prod.splits sum.splits)

lemma fst_pid_tool:
  "fst (get_geoconnex_pid_from_river_name net n) = [post_request (river_query n)]"
  by (simp add: get_geoconnex_pid_from_river_name_def query_geoconnex_def split: prod.splits sum.splits)

lemma snd_datasets_tool:
  "snd (get_datasets_for_geoconnex_pid net p) =
     (case snd (query_geoconnex net (dataset_query p)) of
        Inl e \<Rightarrow> Inl e | Inr r \<Rightarrow> datasets_of_result r)"
  by (simp add: get_datasets_for_geoconnex_pid_def split: prod.splits sum.splits)

lemma fst_datasets_tool:
  "fst (get_datasets_for_geoconnex_pid net p) = [post_request (dataset_query p)]"
  by (simp add: get_datasets_for_geoconnex_pid_def query_geoconnex_def split: prod.splits sum.splits)

lemma pid_of_result_shape:
  assumes "subscript result ''results'' = Inr rs" and "subscript rs ''bindings'' = Inr bs"
  shows "pid_of_result result =
    (case py_iter bs of Inl e \<Rightarrow> Inl e | Inr items \<Rightarrow> first_mainstem items)"
  using assms subscript_Inr_truthy[OF assms(1)] subscript_Inr_in[OF assms(1)]
  by (simp add: pid_of_result_def)

lemma datasets_of_result_shape:
  assumes "subscript result ''results'' = Inr rs"
  shows "datasets_of_result result = subscript rs ''bindings''"
  using assms subscript_Inr_truthy[OF assms(1)] subscript_Inr_in[OF assms(1)]
  by (simp add: datasets_of_result_def)

lemma pid_of_result_assertion:
  "pid_of_result r = Inl AssertionError \<longleftrightarrow> \<not> truthy r \<or> py_in ''results'' r = Inr False"
  by (auto simp: pid_of_result_def subscript_not_assertion py_iter_not_assertion py_in_not_assertion
       first_mainstem_not_assertion split: sum.splits bool.splits)

lemma datasets_of_result_assertion:
  "datasets_of_result r = Inl AssertionError \<longleftrightarrow> \<not> truthy r \<or> py_in ''results'' r = Inr False"
  by (auto simp: datasets_of_result_def subscript_not_assertion py_in_not_assertion split: sum.splits bool.splits)

text \<open>
  Claim C1. When the value the query returned has a list under "results"."bindings",
  the tool returns the "value" of the "mainstem" entry of the first binding, whatever
  follows it in the list, and returns the text "No PID found", without raising, when
  that list is empty.
\<close>

theorem pid_first_binding_or_sentinel:
  assumes "snd (query_geoconnex net (river_query river_name)) = Inr result"
    and "subscript result ''results'' = Inr rs"
    and "subscript rs ''bindings'' = Inr (JArr bs)"
  shows "(bs = [] \<longrightarrow>
           snd (get_geoconnex_pid_from_river_name net river_name) = Inr (JStr ''No PID found''))
       \<and> (\<forall>b rest m v. bs = b # rest \<and> subscript b ''mainstem'' = Inr m
              \<and> subscript m ''value'' = Inr v \<longrightarrow>
           snd (get_geoconnex_pid_from_river_name net river_name) = Inr v)"
  using assms(1) pid_of_result_shape[OF assms(2,3)]
  by (auto simp: snd_pid_tool)


theorem pid_first_binding_or_sentinel_witness:
  "snd (get_geoconnex_pid_from_river_name (always (ok_response ''..'' snake_result)) ''Snake'')
     = Inr (JStr ''https://geoconnex.us/ref/mainstems/123'')
   \<and> snd (get_geoconnex_pid_from_river_name (always (ok_response no_rows_text no_rows_result))
          ''Colorado'') = Inr (JStr ''No PID found'')"
proof -
  let ?b1 = "mainstem_binding ''https://geoconnex.us/ref/mainstems/123''"
  let ?b2 = "mainstem_binding ''https://geoconnex.us/ref/mainstems/456''"
  let ?m = "JObj [(''type'', JStr ''uri''), (''value'', JStr ''https://geoconnex.us/ref/mainstems/123'')]"
  have q1: "snd (query_geoconnex (always (ok_response ''..'' snake_result)) (river_query ''Snake''))
              = Inr snake_result"
    by (simp add: query_geoconnex_def always_def ok_response_def raise_for_status_def)
  have r1: "subscript snake_result ''results'' = Inr (JObj [(''bindings'', JArr [?b1, ?b2])])"
    by (simp add: snake_result_def)
  have b1: "subscript (JObj [(''bindings'', JArr [?b1, ?b2])]) ''bindings'' = Inr (JArr [?b1, ?b2])"
    by simp
  have m1: "subscript ?b1 ''mainstem'' = Inr ?m"
    by (simp add: mainstem_binding_def)
  have v1: "subscript ?m ''value'' = Inr (JStr ''https://geoconnex.us/ref/mainstems/123'')"
    by simp
  have first: "snd (get_geoconnex_pid_from_river_name (always (ok_response ''..'' snake_result))
                 ''Snake'') = Inr (JStr ''https://geoconnex.us/ref/mainstems/123'')"
    using pid_first_binding_or_sentinel[OF q1 r1 b1] m1 v1 by blast
  have q2: "snd (query_geoconnex (always (ok_response no_rows_text no_rows_result))
                 (river_query ''Colorado'')) = Inr no_rows_result"
    by (simp add: query_geoconnex_def always_def ok_response_def raise_for_status_def)
  have r2: "subscript no_rows_result ''results'' = Inr (JObj [(''bindings'', JArr [])])"
    by (simp add: no_rows_result_def)
  have b2: "subscript (JObj [(''bindings'', JArr [])]) ''bindings'' = Inr (JArr [])"
    by simp
  have none: "snd (get_geoconnex_pid_from_river_name
                 (always (ok_response no_rows_text no_rows_result)) ''Colorado'')
               = Inr (JStr ''No PID found'')"
    using pid_first_binding_or_sentinel[OF q2 r2 b2] by blast
  from first none show ?thesis by (rule conjI)
qed

text \<open>
  Claim C2 as it is written fails at a status outside 200 to 299 that is neither a
  client nor a server error: on 304 the executor does not stop with an HTTP error, it
  goes on to decode the body.
\<close>

theorem query_http_error_counterexample:
  "\<not> (200 \<le> status_code not_modified \<and> status_code not_modified < 300)
   \<and> snd (query_geoconnex (always not_modified) ''ASK {}'')
       = Inl (ValueError ''Invalid JSON response from Geoconnex: '')
   \<and> snd (query_geoconnex (always not_modified) ''ASK {}'') \<noteq> Inl (HTTPError 304)"
  by (simp add: query_geoconnex_def always_def not_modified_def raise_for_status_def)

text \<open>
  Claim C2, amended. On a status from 400 to 599 the executor fails with the HTTP error,
  whatever the body is. On every other status (200 to 299 included): a body that does
  not decode gives a \<^verbatim>\<open>ValueError\<close> whose message ends with the raw body text, and a body
  that decodes gives the decoded value as it is.
\<close>

theorem query_geoconnex_outcomes:
  assumes "net (post_request query_text) = Some resp"
  shows "(400 \<le> status_code resp \<and> status_code resp < 600 \<longrightarrow>
            snd (query_geoconnex net query_text) = Inl (HTTPError (status_code resp)))
       \<and> (\<not> (400 \<le> status_code resp \<and> status_code resp < 600) \<and> resp_json resp = None \<longrightarrow>
            snd (query_geoconnex net query_text)
              = Inl (ValueError (''Invalid JSON response from Geoconnex: '' @ resp_text resp))
            \<and> sublist (resp_text resp) (''Invalid JSON response from Geoconnex: '' @ resp_text resp))
       \<and> (\<forall>v. \<not> (400 \<le> status_code resp \<and> status_code resp < 600) \<and> resp_json resp = Some v \<longrightarrow>
            snd (query_geoconnex net query_text) = Inr v)"
proof -
  have "sublist (resp_text resp) (''Invalid JSON response from Geoconnex: '' @ resp_text resp)"
    by (rule sublist_append_leftI)
  moreover have "400 \<le> status_code resp \<and> status_code resp < 600 \<longrightarrow>
      snd (query_geoconnex net query_text) = Inl (HTTPError (status_code resp))"
    using assms by (simp add: query_geoconnex_def raise_for_status_def)
  moreover have "\<not> (400 \<le> status_code resp \<and> status_code resp < 600) \<and> resp_json resp = None \<longrightarrow>
      snd (query_geoconnex net query_text)
        = Inl (ValueError (''Invalid JSON response from Geoconnex: '' @ resp_text resp))"
    using assms by (simp add: query_geoconnex_def raise_for_status_def del: append.simps)
  moreover have "\<forall>v. \<not> (400 \<le> status_code resp \<and> status_code resp < 600) \<and> resp_json resp = Some v \<longrightarrow>
      snd (query_geoconnex net query_text) = Inr v"
    using assms by (simp add: query_geoconnex_def raise_for_status_def)
  ultimately show ?thesis by blast
qed

theorem query_geoconnex_outcomes_witness:
  "snd (query_geoconnex (always unavailable) ''ASK {}'') = Inl (HTTPError 503)
   \<and> snd (query_geoconnex (always html_error_page) ''ASK {}'')
       = Inl (ValueError ''Invalid JSON response from Geoconnex: <html>error</html>'')
   \<and> sublist ''<html>error</html>'' ''Invalid JSON response from Geoconnex: <html>error</html>''
   \<and> snd (query_geoconnex (always (ok_response no_rows_text no_rows_result)) ''ASK {}'')
       = Inr no_rows_result"
proof -
  have a: "always unavailable (post_request ''ASK {}'') = Some unavailable"
    and b: "always html_error_page (post_request ''ASK {}'') = Some html_error_page"
    and c: "always (ok_response no_rows_text no_rows_result) (post_request ''ASK {}'')
              = Some (ok_response no_rows_text no_rows_result)"
    by (simp_all add: always_def)
  from query_geoconnex_outcomes[of "always unavailable" "''ASK {}''" unavailable, OF a]
  have 1: "snd (query_geoconnex (always unavailable) ''ASK {}'') = Inl (HTTPError 503)"
    by (simp add: unavailable_def)
  from query_geoconnex_outcomes[of "always html_error_page" "''ASK {}''" html_error_page, OF b]
  have 2: "snd (query_geoconnex (always html_error_page) ''ASK {}'')
       = Inl (ValueError ''Invalid JSON response from Geoconnex: <html>error</html>'')
      \<and> sublist ''<html>error</html>'' ''Invalid JSON response from Geoconnex: <html>error</html>''"
    by (simp add: html_error_page_def)
  from query_geoconnex_outcomes[of "always (ok_response no_rows_text no_rows_result)" "''ASK {}''"
         "ok_response no_rows_text no_rows_result", OF c]
  have 3: "snd (query_geoconnex (always (ok_response no_rows_text no_rows_result)) ''ASK {}'')
       = Inr no_rows_result"
    by (simp add: ok_response_def)
  from 1 2 3 show ?thesis by blast
qed

text \<open>
  Claim C3. On a 200 response with a JSON body the exploration tool returns the decoded
  structure that \<^verbatim>\<open>query_geoconnex\<close> hands back, not the text of the body.
\<close>

theorem explore_returns_parsed_structure:
  "snd (explore_geoconnex_db (always (ok_response no_rows_text no_rows_result)) ''SELECT * WHERE { ?s ?p ?o } LIMIT 0'')
     = Inr no_rows_result
   \<and> no_rows_result \<noteq> JStr no_rows_text"
  by (simp add: explore_geoconnex_db_def query_geoconnex_def always_def ok_response_def
        raise_for_status_def no_rows_result_def)









lemma river_prefix_bind: \<open>suffix ''BIND("'' river_query_prefix\<close>
  unfolding river_query_prefix_def by code_simp

lemma river_suffix_bind: \<open>prefix ''" AS ?searchString)\<newline>'' river_query_suffix\<close>
  unfolding river_query_suffix_def by code_simp




lemma dataset_prefix_values: "suffix ''VALUES ?mainstem { <'' dataset_query_prefix"
  unfolding dataset_query_prefix_def by code_simp

lemma dataset_suffix_values: "prefix ''> }\<newline>'' dataset_query_suffix"
  unfolding dataset_query_suffix_def by code_simp



lemma query_always_ok:
  "snd (query_geoconnex (always (ok_response body v)) q) = Inr v"
  by (simp add: query_geoconnex_def always_def ok_response_def raise_for_status_def)

text \<open>
  Claim C6. When the value the query returned has a list under "results"."bindings",
  the dataset tool returns that very list: the same elements in the same order, nothing
  filtered out and nothing cut off.
\<close>

theorem datasets_returns_bindings_unmodified:
  assumes "snd (query_geoconnex net (dataset_query pid)) = Inr result"
    and "subscript result ''results'' = Inr rs"
    and "subscript rs ''bindings'' = Inr (JArr bs)"
  shows "snd (get_datasets_for_geoconnex_pid net pid) = Inr (JArr bs)"
  using assms(1,3) datasets_of_result_shape[OF assms(2)] by (simp add: snd_datasets_tool)

theorem datasets_returns_bindings_unmodified_witness:
  "snd (get_datasets_for_geoconnex_pid (always (ok_response ''..'' six_rows_result))
      ''https://geoconnex.us/ref/mainstems/123'') = Inr (JArr six_rows)
   \<and> length six_rows = 6"
proof -
  have r: "subscript six_rows_result ''results'' = Inr (JObj [(''bindings'', JArr six_rows)])"
    by (simp add: six_rows_result_def)
  have b: "subscript (JObj [(''bindings'', JArr six_rows)]) ''bindings'' = Inr (JArr six_rows)"
    by simp
  have "snd (get_datasets_for_geoconnex_pid (always (ok_response ''..'' six_rows_result))
      ''https://geoconnex.us/ref/mainstems/123'') = Inr (JArr six_rows)"
    by (rule datasets_returns_bindings_unmodified[OF query_always_ok r b])
  moreover have "length six_rows = 6" by (simp add: six_rows_def)
  ultimately show ?thesis by (rule conjI)
qed

text \<open>
  Claim C7. In both tools, a value that is falsy, or a dictionary without the key
  "results", ends the call with \<^verbatim>\<open>AssertionError\<close>, which nothing catches; a value that is
  truthy and contains "results" never ends with \<^verbatim>\<open>AssertionError\<close>. Indeed the call ends
  with \<^verbatim>\<open>AssertionError\<close> exactly when the value is falsy or the test \<^verbatim>\<open>"results" in result\<close>
  is false.
\<close>

theorem assertions_fatal_and_guarded:
  "(snd (query_geoconnex net (river_query river_name)) = Inr r \<longrightarrow>
      (\<not> truthy r \<longrightarrow>
         snd (get_geoconnex_pid_from_river_name net river_name) = Inl AssertionError)
    \<and> (\<forall>kvs. r = JObj kvs \<and> ''results'' \<notin> fst ` set kvs \<longrightarrow>
         snd (get_geoconnex_pid_from_river_name net river_name) = Inl AssertionError)
    \<and> (truthy r \<and> py_in ''results'' r = Inr True \<longrightarrow>
         snd (get_geoconnex_pid_from_river_name net river_name) \<noteq> Inl AssertionError)
    \<and> (snd (get_geoconnex_pid_from_river_name net river_name) = Inl AssertionError
         \<longleftrightarrow> \<not> truthy r \<or> py_in ''results'' r = Inr False))
   \<and> (snd (query_geoconnex net (dataset_query pid)) = Inr r' \<longrightarrow>
      (\<not> truthy r' \<longrightarrow>
         snd (get_datasets_for_geoconnex_pid net pid) = Inl AssertionError)
    \<and> (\<forall>kvs. r' = JObj kvs \<and> ''results'' \<notin> fst ` set kvs \<longrightarrow>
         snd (get_datasets_for_geoconnex_pid net pid) = Inl AssertionError)
    \<and> (truthy r' \<and> py_in ''results'' r' = Inr True \<longrightarrow>
         snd (get_datasets_for_geoconnex_pid net pid) \<noteq> Inl AssertionError)
    \<and> (snd (get_datasets_for_geoconnex_pid net pid) = Inl AssertionError
         \<longleftrightarrow> \<not> truthy r' \<or> py_in ''results'' r' = Inr False))"
proof -
  have key: "k \<in> fst ` set kvs" if "map_of kvs k = Some y" for kvs :: "(string \<times> json) list" and k y
    using that by (metis map_of_eq_None_iff option.distinct(1))
  show ?thesis
    by (auto simp: snd_pid_tool snd_datasets_tool pid_of_result_assertion
          datasets_of_result_assertion dest: key)
qed


theorem assertions_fatal_and_guarded_witness:
  "snd (get_geoconnex_pid_from_river_name (always (ok_response ''{}'' empty_object)) ''Snake'')
     = Inl AssertionError
   \<and> snd (get_datasets_for_geoconnex_pid (always (ok_response ''{}'' empty_object)) ''p'')
     = Inl AssertionError
   \<and> snd (get_geoconnex_pid_from_river_name (always (ok_response ''..'' head_only_result)) ''Snake'')
     = Inl AssertionError
   \<and> snd (get_datasets_for_geoconnex_pid (always (ok_response ''..'' head_only_result)) ''p'')
     = Inl AssertionError
   \<and> snd (get_geoconnex_pid_from_river_name (always (ok_response ''..'' snake_result)) ''Snake'')
     \<noteq> Inl AssertionError
   \<and> snd (get_datasets_for_geoconnex_pid (always (ok_response ''..'' snake_result)) ''p'')
     \<noteq> Inl AssertionError"
proof -
  have e: "\<not> truthy empty_object" by (simp add: empty_object_def)
  have h: "head_only_result = JObj [(''head'', JObj [(''vars'', JArr [])])]
           \<and> ''results'' \<notin> fst ` set [(''head'', JObj [(''vars'', JArr [])])]"
    by (simp add: head_only_result_def)
  have s: "truthy snake_result \<and> py_in ''results'' snake_result = Inr True"
    by (simp add: snake_result_def)
  note t1 = assertions_fatal_and_guarded[of "always (ok_response ''{}'' empty_object)" "''Snake''"
      empty_object "''p''" empty_object]
  note t2 = assertions_fatal_and_guarded[of "always (ok_response ''..'' head_only_result)" "''Snake''"
      head_only_result "''p''" head_only_result]
  note t3 = assertions_fatal_and_guarded[of "always (ok_response ''..'' snake_result)" "''Snake''"
      snake_result "''p''" snake_result]
  have 1: "snd (get_geoconnex_pid_from_river_name (always (ok_response ''{}'' empty_object)) ''Snake'')
     = Inl AssertionError
   \<and> snd (get_datasets_for_geoconnex_pid (always (ok_response ''{}'' empty_object)) ''p'')
     = Inl AssertionError"
    using t1 e unfolding query_always_ok by blast
  have 2: "snd (get_geoconnex_pid_from_river_name (always (ok_response ''..'' head_only_result)) ''Snake'')
     = Inl AssertionError
   \<and> snd (get_datasets_for_geoconnex_pid (always (ok_response ''..'' head_only_result)) ''p'')
     = Inl AssertionError"
    using t2 h unfolding query_always_ok by blast
  have 3: "snd (get_geoconnex_pid_from_river_name (always (ok_response ''..'' snake_result)) ''Snake'')
     \<noteq> Inl AssertionError
   \<and> snd (get_datasets_for_geoconnex_pid (always (ok_response ''..'' snake_result)) ''p'')
     \<noteq> Inl AssertionError"
    using t3 s unfolding query_always_ok by blast
  from 1 2 3 show ?thesis by blast
qed

lemma first_mainstem_of_iter:
  assumes "py_iter bs = Inr items" and "first_mainstem items = Inr v"
  shows "bs = JArr [] \<or> bs = JObj [] \<or> bs = JStr []
         \<or> (\<exists>b rest m. bs = JArr (b # rest) \<and> subscript b ''mainstem'' = Inr m
               \<and> subscript m ''value'' = Inr v)"
proof (cases bs)
  case (JArr xs)
  with assms show ?thesis by (cases xs) (auto split: sum.splits)
next
  case (JObj kvs)
  with assms show ?thesis by (cases kvs) auto
next
  case (JStr s)
  with assms show ?thesis by (cases s) auto
qed (use assms in auto)

lemma pid_of_result_sentinel_iff:
  "pid_of_result result = Inr (JStr ''No PID found'') \<longleftrightarrow>
     (\<exists>rs bs. subscript result ''results'' = Inr rs \<and> subscript rs ''bindings'' = Inr bs
        \<and> (bs = JArr [] \<or> bs = JObj [] \<or> bs = JStr []
           \<or> (\<exists>b rest m. bs = JArr (b # rest) \<and> subscript b ''mainstem'' = Inr m
                 \<and> subscript m ''value'' = Inr (JStr ''No PID found''))))"
  (is "?L \<longleftrightarrow> ?R")
proof
  assume ?L
  then obtain rs bs items where *: "subscript result ''results'' = Inr rs"
      "subscript rs ''bindings'' = Inr bs" "py_iter bs = Inr items"
      "first_mainstem items = Inr (JStr ''No PID found'')"
    by (auto simp: pid_of_result_def split: if_splits sum.splits bool.splits)
  from first_mainstem_of_iter[OF *(3,4)] *(1,2) show ?R by blast
next
  assume ?R
  then obtain rs bs where *: "subscript result ''results'' = Inr rs"
      "subscript rs ''bindings'' = Inr bs"
    and c: "bs = JArr [] \<or> bs = JObj [] \<or> bs = JStr []
           \<or> (\<exists>b rest m. bs = JArr (b # rest) \<and> subscript b ''mainstem'' = Inr m
                 \<and> subscript m ''value'' = Inr (JStr ''No PID found''))"
    by blast
  from c show ?L unfolding pid_of_result_shape[OF *] by auto
qed

text \<open>
  Claim C10 as it is written fails in its last clause: the text "No PID found" does not
  need a bindings list. With an empty dictionary under "bindings" both assertions pass,
  the loop has nothing to visit, and the tool returns the text.
\<close>

theorem sentinel_without_bindings_list_counterexample:
  "truthy empty_dict_bindings_result
   \<and> py_in ''results'' empty_dict_bindings_result = Inr True
   \<and> subscript empty_dict_bindings_result ''results'' = Inr (JObj [(''bindings'', JObj [])])
   \<and> subscript (JObj [(''bindings'', JObj [])]) ''bindings'' = Inr (JObj [])
   \<and> snd (get_geoconnex_pid_from_river_name
            (always (ok_response ''..'' empty_dict_bindings_result)) ''Snake'')
       = Inr (JStr ''No PID found'')"
  by (simp add: empty_dict_bindings_result_def snd_pid_tool query_always_ok pid_of_result_def)

text \<open>
  Claim C10, amended. For a value that passes both assertions: a "results" dictionary
  without "bindings" gives \<^verbatim>\<open>KeyError\<close>; a first binding without "mainstem" gives
  \<^verbatim>\<open>KeyError\<close>; a "mainstem" dictionary without "value" gives \<^verbatim>\<open>KeyError\<close>. The tool
  returns the text "No PID found" exactly when the "bindings" entry exists and is an
  empty list, an empty dictionary or an empty string, or is a list whose first binding
  carries that very text as its "mainstem" "value".
\<close>

theorem missing_keys_raise_and_sentinel_cases:
  assumes "snd (query_geoconnex net (river_query river_name)) = Inr result"
    and "truthy result" and "py_in ''results'' result = Inr True"
  shows "(\<forall>kvs. subscript result ''results'' = Inr (JObj kvs) \<and> map_of kvs ''bindings'' = None \<longrightarrow>
            snd (get_geoconnex_pid_from_river_name net river_name) = Inl (KeyError ''bindings''))
       \<and> (\<forall>rs b rest. subscript result ''results'' = Inr rs
              \<and> subscript rs ''bindings'' = Inr (JArr (JObj b # rest))
              \<and> map_of b ''mainstem'' = None \<longrightarrow>
            snd (get_geoconnex_pid_from_river_name net river_name) = Inl (KeyError ''mainstem''))
       \<and> (\<forall>rs b rest m. subscript result ''results'' = Inr rs
              \<and> subscript rs ''bindings'' = Inr (JArr (JObj b # rest))
              \<and> map_of b ''mainstem'' = Some (JObj m) \<and> map_of m ''value'' = None \<longrightarrow>
            snd (get_geoconnex_pid_from_river_name net river_name) = Inl (KeyError ''value''))
       \<and> (snd (get_geoconnex_pid_from_river_name net river_name) = Inr (JStr ''No PID found'')
            \<longleftrightarrow>
          (\<exists>rs bs. subscript result ''results'' = Inr rs \<and> subscript rs ''bindings'' = Inr bs
             \<and> (bs = JArr [] \<or> bs = JObj [] \<or> bs = JStr []
                \<or> (\<exists>b rest m. bs = JArr (b # rest) \<and> subscript b ''mainstem'' = Inr m
                      \<and> subscript m ''value'' = Inr (JStr ''No PID found'')))))"
proof -
  have tool: "snd (get_geoconnex_pid_from_river_name net river_name) = pid_of_result result"
    using assms(1) by (simp add: snd_pid_tool)
  have a: "pid_of_result result = Inl (KeyError ''bindings'')"
    if "subscript result ''results'' = Inr (JObj kvs)" "map_of kvs ''bindings'' = None" for kvs
    using that assms(2,3) by (simp add: pid_of_result_def)
  have d: "pid_of_result result
             = (case subscript b ''mainstem'' of Inl e \<Rightarrow> Inl e | Inr m \<Rightarrow> subscript m ''value'')"
    if "subscript result ''results'' = Inr rs" "subscript rs ''bindings'' = Inr (JArr (b # rest))"
    for rs b rest
    using pid_of_result_shape[OF that] by simp
  have b: "pid_of_result result = Inl (KeyError ''mainstem'')"
    if "subscript result ''results'' = Inr rs"
       "subscript rs ''bindings'' = Inr (JArr (JObj b # rest))" "map_of b ''mainstem'' = None"
    for rs b rest
    using d[OF that(1,2)] that(3) by simp
  have c: "pid_of_result result = Inl (KeyError ''value'')"
    if "subscript result ''results'' = Inr rs"
       "subscript rs ''bindings'' = Inr (JArr (JObj b # rest))"
       "map_of b ''mainstem'' = Some (JObj m)" "map_of m ''value'' = None"
    for rs b rest m
    using d[OF that(1,2)] that(3,4) by simp
  from a b c have abc: "(\<forall>kvs. subscript result ''results'' = Inr (JObj kvs) \<and> map_of kvs ''bindings'' = None \<longrightarrow>
            pid_of_result result = Inl (KeyError ''bindings''))
       \<and> (\<forall>rs b rest. subscript result ''results'' = Inr rs
              \<and> subscript rs ''bindings'' = Inr (JArr (JObj b # rest))
              \<and> map_of b ''mainstem'' = None \<longrightarrow>
            pid_of_result result = Inl (KeyError ''mainstem''))
       \<and> (\<forall>rs b rest m. subscript result ''results'' = Inr rs
              \<and> subscript rs ''bindings'' = Inr (JArr (JObj b # rest))
              \<and> map_of b ''mainstem'' = Some (JObj m) \<and> map_of m ''value'' = None \<longrightarrow>
            pid_of_result result = Inl (KeyError ''value''))"
    by blast
  show ?thesis unfolding tool using abc pid_of_result_sentinel_iff[of result] by (intro conjI) blast+
qed

theorem missing_keys_raise_and_sentinel_cases_witness:
  "snd (get_geoconnex_pid_from_river_name (always (ok_response ''..'' no_bindings_result)) ''Snake'')
     = Inl (KeyError ''bindings'')
   \<and> snd (get_geoconnex_pid_from_river_name (always (ok_response ''..'' no_mainstem_result)) ''Snake'')
     = Inl (KeyError ''mainstem'')
   \<and> snd (get_geoconnex_pid_from_river_name (always (ok_response ''..'' no_value_result)) ''Snake'')
     = Inl (KeyError ''value'')
   \<and> snd (get_geoconnex_pid_from_river_name (always (ok_response ''..'' sentinel_row_result)) ''Snake'')
     = Inr (JStr ''No PID found'')
   \<and> snd (get_geoconnex_pid_from_river_name (always (ok_response ''..'' snake_result)) ''Snake'')
     \<noteq> Inr (JStr ''No PID found'')"
proof -
  have p1: "truthy no_bindings_result" "py_in ''results'' no_bindings_result = Inr True"
    and s1: "subscript no_bindings_result ''results'' = Inr (JObj [])"
    by (simp_all add: no_bindings_result_def)
  have 1: "snd (get_geoconnex_pid_from_river_name (always (ok_response ''..'' no_bindings_result))
             ''Snake'') = Inl (KeyError ''bindings'')"
    using missing_keys_raise_and_sentinel_cases[OF query_always_ok p1] s1 by simp
  let ?b2 = "[(''name'', JObj [(''value'', JStr ''Snake River'')])]"
  have p2: "truthy no_mainstem_result" "py_in ''results'' no_mainstem_result = Inr True"
    and s2: "subscript no_mainstem_result ''results'' = Inr (JObj [(''bindings'', JArr [JObj ?b2])])"
    by (simp_all add: no_mainstem_result_def)
  have k2: "subscript (JObj [(''bindings'', JArr [JObj ?b2])]) ''bindings'' = Inr (JArr (JObj ?b2 # []))"
    "map_of ?b2 ''mainstem'' = None"
    by simp_all
  have 2: "snd (get_geoconnex_pid_from_river_name (always (ok_response ''..'' no_mainstem_result))
             ''Snake'') = Inl (KeyError ''mainstem'')"
    using missing_keys_raise_and_sentinel_cases[OF query_always_ok p2] s2 k2 by blast
  let ?m3 = "[(''type'', JStr ''uri'')]"
  let ?b3 = "[(''mainstem'', JObj ?m3)]"
  have p3: "truthy no_value_result" "py_in ''results'' no_value_result = Inr True"
    and s3: "subscript no_value_result ''results'' = Inr (JObj [(''bindings'', JArr [JObj ?b3])])"
    by (simp_all add: no_value_result_def)
  have k3: "subscript (JObj [(''bindings'', JArr [JObj ?b3])]) ''bindings'' = Inr (JArr (JObj ?b3 # []))"
    "map_of ?b3 ''mainstem'' = Some (JObj ?m3)" "map_of ?m3 ''value'' = None"
    by simp_all
  have 3: "snd (get_geoconnex_pid_from_river_name (always (ok_response ''..'' no_value_result))
             ''Snake'') = Inl (KeyError ''value'')"
    using missing_keys_raise_and_sentinel_cases[OF query_always_ok p3] s3 k3 by blast
  let ?b4 = "mainstem_binding ''No PID found''"
  let ?m4 = "JObj [(''type'', JStr ''uri''), (''value'', JStr ''No PID found'')]"
  have p4: "truthy sentinel_row_result" "py_in ''results'' sentinel_row_result = Inr True"
    and s4: "subscript sentinel_row_result ''results'' = Inr (JObj [(''bindings'', JArr [?b4])])"
    by (simp_all add: sentinel_row_result_def)
  have k4: "subscript (JObj [(''bindings'', JArr [?b4])]) ''bindings'' = Inr (JArr (?b4 # []))"
    "subscript ?b4 ''mainstem'' = Inr ?m4" "subscript ?m4 ''value'' = Inr (JStr ''No PID found'')"
    by (simp_all add: mainstem_binding_def)
  have 4: "snd (get_geoconnex_pid_from_river_name (always (ok_response ''..'' sentinel_row_result))
             ''Snake'') = Inr (JStr ''No PID found'')"
    using missing_keys_raise_and_sentinel_cases[OF query_always_ok p4] s4 k4 by blast
  have p5: "truthy snake_result" "py_in ''results'' snake_result = Inr True"
    by (simp_all add: snake_result_def)
  have n5: "\<not> (\<exists>rs bs. subscript snake_result ''results'' = Inr rs \<and> subscript rs ''bindings'' = Inr bs
             \<and> (bs = JArr [] \<or> bs = JObj [] \<or> bs = JStr []
                \<or> (\<exists>b rest m. bs = JArr (b # rest) \<and> subscript b ''mainstem'' = Inr m
                      \<and> subscript m ''value'' = Inr (JStr ''No PID found''))))"
    by (auto simp: snake_result_def mainstem_binding_def)
  have 5: "snd (get_geoconnex_pid_from_river_name (always (ok_response ''..'' snake_result))
             ''Snake'') \<noteq> Inr (JStr ''No PID found'')"
    using missing_keys_raise_and_sentinel_cases[OF query_always_ok p5] n5 by blast
  from 1 2 3 4 5 show ?thesis by blast
qed

text \<open>
  Claim C8. For every river name and every pid, the body of the one request a tool
  sends is a fixed text, then the argument character for character, then a fixed text:
  the argument stands between \<^verbatim>\<open>BIND("\<close> and \<^verbatim>\<open>" AS ?searchString)\<close>, and between
  \<^verbatim>\<open>VALUES ?mainstem { <\<close> and \<^verbatim>\<open>> }\<close>. No argument is rejected or rewritten.
\<close>

theorem verbatim_substitution:
  \<open>map data (fst (get_geoconnex_pid_from_river_name net river_name))
      = [Some (river_query_prefix @ river_name @ river_query_suffix)]
   \<and> map data (fst (get_datasets_for_geoconnex_pid net pid))
      = [Some (dataset_query_prefix @ pid @ dataset_query_suffix)]
   \<and> suffix ''BIND("'' river_query_prefix
   \<and> prefix ''" AS ?searchString)\<newline>'' river_query_suffix
   \<and> suffix ''VALUES ?mainstem { <'' dataset_query_prefix
   \<and> prefix ''> }\<newline>'' dataset_query_suffix\<close>
proof -
  have "map data (fst (get_geoconnex_pid_from_river_name net river_name))
      = [Some (river_query_prefix @ river_name @ river_query_suffix)]"
    by (simp add: fst_pid_tool post_request_def utf8_encode_def river_query_def)
  moreover have "map data (fst (get_datasets_for_geoconnex_pid net pid))
      = [Some (dataset_query_prefix @ pid @ dataset_query_suffix)]"
    by (simp add: fst_datasets_tool post_request_def utf8_encode_def dataset_query_def)
  moreover note river_prefix_bind river_suffix_bind dataset_prefix_values dataset_suffix_values
  ultimately show ?thesis by blast
qed

text \<open>
  Claim C9 as it is written fails at a status that is not a success and not a client or
  server error either: on 300 the shape fetcher returns the body.
\<close>

theorem shacl_shape_counterexample:
  "\<not> (200 \<le> status_code multiple_choices \<and> status_code multiple_choices < 300)
   \<and> snd (geoconnex_shacl_shape (always multiple_choices)) = Inr (JStr ''<html>choose</html>'')"
  by (simp add: geoconnex_shacl_shape_def always_def multiple_choices_def raise_for_status_def)

text \<open>
  Claim C9, amended. The shape fetcher takes no argument and sends one GET request to
  one fixed address. On a status from 400 to 599 it fails with the HTTP error; on every
  other status it returns the raw body text, neither decoded nor inspected.
\<close>

theorem shacl_shape_outcomes:
  "fst (geoconnex_shacl_shape net) = [get_request shacl_url]
   \<and> meth (get_request shacl_url) = GET
   \<and> (\<forall>resp. net (get_request shacl_url) = Some resp \<longrightarrow>
        (400 \<le> status_code resp \<and> status_code resp < 600 \<longrightarrow>
           snd (geoconnex_shacl_shape net) = Inl (HTTPError (status_code resp)))
      \<and> (\<not> (400 \<le> status_code resp \<and> status_code resp < 600) \<longrightarrow>
           snd (geoconnex_shacl_shape net) = Inr (JStr (resp_text resp))))"
  by (simp add: geoconnex_shacl_shape_def raise_for_status_def get_request_def)

theorem shacl_shape_outcomes_witness:
  "snd (geoconnex_shacl_shape (always unavailable)) = Inl (HTTPError 503)
   \<and> snd (geoconnex_shacl_shape (always html_error_page)) = Inr (JStr ''<html>error</html>'')"
proof -
  have a: "always unavailable (get_request shacl_url) = Some unavailable"
    and b: "always html_error_page (get_request shacl_url) = Some html_error_page"
    by (simp_all add: always_def)
  have 1: "snd (geoconnex_shacl_shape (always unavailable)) = Inl (HTTPError 503)"
    using shacl_shape_outcomes[of "always unavailable"] a by (simp add: unavailable_def)
  have 2: "snd (geoconnex_shacl_shape (always html_error_page)) = Inr (JStr ''<html>error</html>'')"
    using shacl_shape_outcomes[of "always html_error_page"] b by (simp add: html_error_page_def)
  from 1 2 show ?thesis by (rule conjI)
qed

end
